theory Spec2Isabelle
  imports Main
begin

section \<open>The access probe of \<^verbatim>\<open>04_test_access_summary.py\<close>\<close>

subsection \<open>Data\<close>

text \<open>
  The dictionary \<^verbatim>\<open>permissions\<close> of \<^verbatim>\<open>check_dataset_permissions\<close> is built with
  exactly eight keys, all \<^verbatim>\<open>False\<close>; no key is ever added or removed, values are only
  overwritten with \<^verbatim>\<open>True\<close>. It is a record with the keys as fields, in the order of
  the dictionary literal.
\<close>

record permissions =
  dataset_exists :: bool
  can_list_tables :: bool
  can_get_dataset :: bool
  can_create_table :: bool
  can_read_data :: bool
  can_write_data :: bool
  can_delete_data :: bool
  can_update_dataset :: bool

definition initial_permissions :: permissions where
  "initial_permissions =
     \<lparr>dataset_exists = False, can_list_tables = False, can_get_dataset = False,
      can_create_table = False, can_read_data = False, can_write_data = False,
      can_delete_data = False, can_update_dataset = False\<rparr>"

text \<open>
  The exceptions a call of the BigQuery client can raise. The source tells apart
  \<^verbatim>\<open>exceptions.NotFound\<close>, \<^verbatim>\<open>exceptions.Forbidden\<close> and everything else;
  \<open>DeadlineExceeded\<close> (a timeout) and \<open>OtherError\<close> stand for the exceptions that are
  instances of neither class. All of them are subclasses of \<^verbatim>\<open>Exception\<close>, so both a
  bare \<^verbatim>\<open>except\<close> and \<^verbatim>\<open>except Exception\<close> catch them.
\<close>

datatype exn = NotFound | Forbidden | DeadlineExceeded | OtherError

text \<open>The calls made on the client, in the order the source can make them.\<close>

datatype call =
  GetDataset | ListTables | QueryRead | QueryCreate | DeleteTable | QueryDelete | UpdateDataset

text \<open>
  The client as one run sees it. Every call is made at most once in a run, so the
  warehouse's behaviour in that run is the outcome of each call: \<open>None\<close> when the call
  returns, \<open>Some e\<close> when it raises \<open>e\<close>.
\<close>

record client =
  get_dataset :: "exn option"
  list_tables :: "exn option"
  query_read :: "exn option"
  query_create :: "exn option"
  delete_table :: "exn option"
  query_delete :: "exn option"
  update_dataset :: "exn option"

text \<open>The four strings \<^verbatim>\<open>access_level\<close> is assigned in \<^verbatim>\<open>generate_access_report\<close>.\<close>

datatype AccessLevel = NONE | READER | WRITER | OWNER

subsection \<open>\<^verbatim>\<open>check_dataset_permissions\<close>\<close>

text \<open>
  The state threaded through the probes is the list of calls made so far and the
  dictionary. Each of the five \<^verbatim>\<open>try: ... except: pass\<close> blocks is one function; a bare
  \<^verbatim>\<open>except\<close> catches every exception.
\<close>

type_synonym probe_state = "call list \<times> permissions"

definition probe_list_tables :: "client \<Rightarrow> probe_state \<Rightarrow> probe_state" where
  "probe_list_tables c s =
     (case s of (calls, p) \<Rightarrow>
        (case list_tables c of
           None \<Rightarrow> (calls @ [ListTables], p\<lparr>can_list_tables := True\<rparr>)
         | Some e \<Rightarrow> (calls @ [ListTables], p)))"

definition probe_read_data :: "client \<Rightarrow> probe_state \<Rightarrow> probe_state" where
  "probe_read_data c s =
     (case s of (calls, p) \<Rightarrow>
        (case query_read c of
           None \<Rightarrow> (calls @ [QueryRead], p\<lparr>can_read_data := True\<rparr>)
         | Some e \<Rightarrow> (calls @ [QueryRead], p)))"

text \<open>
  The write probe: \<^verbatim>\<open>delete_table\<close> is the last statement of the \<^verbatim>\<open>try\<close> body, after the
  query and the two assignments, so it is reached only when the query returned, and an
  exception it raises is caught by the same bare \<^verbatim>\<open>except\<close>.
\<close>

definition probe_write_data :: "client \<Rightarrow> probe_state \<Rightarrow> probe_state" where
  "probe_write_data c s =
     (case s of (calls, p) \<Rightarrow>
        (case query_create c of
           None \<Rightarrow>
             (let p' = p\<lparr>can_create_table := True, can_write_data := True\<rparr> in
                (case delete_table c of
                   None \<Rightarrow> (calls @ [QueryCreate, DeleteTable], p')
                 | Some e \<Rightarrow> (calls @ [QueryCreate, DeleteTable], p')))
         | Some e \<Rightarrow> (calls @ [QueryCreate], p)))"

definition probe_delete_data :: "client \<Rightarrow> probe_state \<Rightarrow> probe_state" where
  "probe_delete_data c s =
     (case s of (calls, p) \<Rightarrow>
        (case query_delete c of
           None \<Rightarrow> (calls @ [QueryDelete], p\<lparr>can_delete_data := True\<rparr>)
         | Some e \<Rightarrow> (calls @ [QueryDelete], p)))"

definition probe_update_dataset :: "client \<Rightarrow> probe_state \<Rightarrow> probe_state" where
  "probe_update_dataset c s =
     (case s of (calls, p) \<Rightarrow>
        (case update_dataset c of
           None \<Rightarrow> (calls @ [UpdateDataset], p\<lparr>can_update_dataset := True\<rparr>)
         | Some e \<Rightarrow> (calls @ [UpdateDataset], p)))"

text \<open>
  The function returns the calls it made and either the dictionary (\<open>Inr\<close>) or the
  exception that leaves it (\<open>Inl\<close>). The first \<^verbatim>\<open>try\<close> has handlers for
  \<^verbatim>\<open>NotFound\<close> and \<^verbatim>\<open>Forbidden\<close> only, each returning the dictionary as it is; any other
  exception of \<^verbatim>\<open>get_dataset\<close> is not handled there.
\<close>

definition check_dataset_permissions :: "client \<Rightarrow> call list \<times> (exn + permissions)" where
  "check_dataset_permissions c =
     (case get_dataset c of
        None \<Rightarrow>
          (case probe_update_dataset c
                  (probe_delete_data c
                    (probe_write_data c
                      (probe_read_data c
                        (probe_list_tables c
                          ([GetDataset],
                           initial_permissions\<lparr>dataset_exists := True,
                                                can_get_dataset := True\<rparr>))))) of
             (calls, p) \<Rightarrow> (calls, Inr p))
      | Some NotFound \<Rightarrow> ([GetDataset], Inr initial_permissions)
      | Some Forbidden \<Rightarrow> ([GetDataset], Inr initial_permissions)
      | Some e \<Rightarrow> ([GetDataset], Inl e))"

subsection \<open>\<^verbatim>\<open>generate_access_report\<close> and \<^verbatim>\<open>main\<close>\<close>

text \<open>The \<^verbatim>\<open>if\<close>/\<^verbatim>\<open>elif\<close> chain that assigns \<^verbatim>\<open>access_level\<close> (lines 158 to 169).\<close>

definition access_level :: "permissions \<Rightarrow> AccessLevel" where
  "access_level p =
     (if can_update_dataset p \<and> can_delete_data p then OWNER
      else if can_write_data p \<and> can_create_table p then WRITER
      else if can_read_data p then READER
      else NONE)"

text \<open>
  The classification as the specification words it: OWNER needs update and delete
  evidence; otherwise WRITER needs write and create evidence; otherwise READER needs
  read evidence; otherwise NONE.
\<close>

fun classify_spec :: "bool \<Rightarrow> bool \<Rightarrow> bool \<Rightarrow> bool \<Rightarrow> bool \<Rightarrow> AccessLevel" where
  "classify_spec True True w c r = OWNER"
| "classify_spec u d True True r = WRITER"
| "classify_spec u d w c True = READER"
| "classify_spec u d w c r = NONE"

text \<open>
  \<^verbatim>\<open>generate_access_report\<close>: the constructor \<^verbatim>\<open>bigquery.Client(project=project_id)\<close>
  either raises or gives the client; \<^verbatim>\<open>get_current_user_info\<close> has its whole body under
  a bare \<^verbatim>\<open>except\<close> and raises nothing; then the permissions are checked, the level is
  derived and \<^verbatim>\<open>access_level != "NONE"\<close> is returned. Printing is not modelled.
\<close>

definition generate_access_report :: "exn + client \<Rightarrow> exn + bool" where
  "generate_access_report new_client =
     (case new_client of
        Inl e \<Rightarrow> Inl e
      | Inr c \<Rightarrow>
          (case snd (check_dataset_permissions c) of
             Inl e \<Rightarrow> Inl e
           | Inr p \<Rightarrow> Inr (access_level p \<noteq> NONE)))"

text \<open>
  \<^verbatim>\<open>main\<close> after the arguments are parsed: \<^verbatim>\<open>0 if has_access else 1\<close>, and \<^verbatim>\<open>1\<close> from the
  handler \<^verbatim>\<open>except Exception\<close>. The value is what \<^verbatim>\<open>sys.exit\<close> receives.
\<close>

definition main :: "exn + client \<Rightarrow> int" where
  "main new_client =
     (case generate_access_report new_client of
        Inr has_access \<Rightarrow> (if has_access then 0 else 1)
      | Inl e \<Rightarrow> 1)"

subsection \<open>Example runs\<close>

text \<open>A missing dataset: \<^verbatim>\<open>get_dataset\<close> raises \<^verbatim>\<open>NotFound\<close>; every later call would return.\<close>

definition missing_dataset_client :: client where
  "missing_dataset_client =
     \<lparr>get_dataset = Some NotFound, list_tables = None, query_read = None,
      query_create = None, delete_table = None, query_delete = None,
      update_dataset = None\<rparr>"

text \<open>A timeout while the dataset is fetched; every later call would return.\<close>

definition timeout_client :: client where
  "timeout_client =
     \<lparr>get_dataset = Some DeadlineExceeded, list_tables = None, query_read = None,
      query_create = None, delete_table = None, query_delete = None,
      update_dataset = None\<rparr>"

text \<open>The dataset is there and every later probe fails, each for another reason.\<close>

definition failing_probes_client :: client where
  "failing_probes_client =
     \<lparr>get_dataset = None, list_tables = Some NotFound, query_read = Some Forbidden,
      query_create = Some DeadlineExceeded, delete_table = None,
      query_delete = Some OtherError, update_dataset = Some Forbidden\<rparr>"

text \<open>A read-only identity: reading works, creating, deleting and updating are forbidden.\<close>

definition reader_client :: client where
  "reader_client =
     \<lparr>get_dataset = None, list_tables = None, query_read = None,
      query_create = Some Forbidden, delete_table = None, query_delete = Some Forbidden,
      update_dataset = Some Forbidden\<rparr>"

text \<open>
  A writer whose dataset has no table \<^verbatim>\<open>transcripts\<close>: the read query and the delete
  statement raise \<^verbatim>\<open>NotFound\<close>, the throwaway table is created and dropped.
\<close>

definition writer_without_transcripts_client :: client where
  "writer_without_transcripts_client =
     \<lparr>get_dataset = None, list_tables = None, query_read = Some NotFound,
      query_create = None, delete_table = None, query_delete = Some NotFound,
      update_dataset = Some Forbidden\<rparr>"

text \<open>The throwaway table is created, and dropping it times out.\<close>

definition cleanup_fails_client :: client where
  "cleanup_fails_client =
     \<lparr>get_dataset = None, list_tables = None, query_read = None,
      query_create = None, delete_table = Some DeadlineExceeded, query_delete = None,
      update_dataset = None\<rparr>"

text \<open>The outcomes of the writer without \<^verbatim>\<open>transcripts\<close>: write evidence, no read evidence.\<close>

definition write_without_read :: permissions where
  "write_without_read =
     \<lparr>dataset_exists = True, can_list_tables = True, can_get_dataset = True,
      can_create_table = True, can_read_data = False, can_write_data = True,
      can_delete_data = False, can_update_dataset = False\<rparr>"

text \<open>The ordering NONE < READER < WRITER < OWNER of the levels, as a rank.\<close>

fun level_rank :: "AccessLevel \<Rightarrow> nat" where
  "level_rank NONE = 0"
| "level_rank READER = 1"
| "level_rank WRITER = 2"
| "level_rank OWNER = 3"

section \<open>Properties\<close>

subsection \<open>The classification\<close>

text \<open>
  C1. The classification of the source equals the specification's reference
  definition on every assignment of the probe outcomes, and an assignment with
  \<open>can_update_dataset\<close> and \<open>can_delete_data\<close> true and \<open>can_write_data\<close> false is
  classified OWNER whatever the other outcomes are.
\<close>

theorem access_level_refines_spec:
  "access_level p =
     classify_spec (can_update_dataset p) (can_delete_data p) (can_write_data p)
       (can_create_table p) (can_read_data p)
   \<and> access_level (p\<lparr>can_update_dataset := True, can_delete_data := True,
                      can_write_data := False\<rparr>) = OWNER"
proof
  show "access_level p =
     classify_spec (can_update_dataset p) (can_delete_data p) (can_write_data p)
       (can_create_table p) (can_read_data p)"
    by (cases "can_update_dataset p"; cases "can_delete_data p"; cases "can_write_data p";
        cases "can_create_table p"; cases "can_read_data p") (simp_all add: access_level_def)
next
  show "access_level (p\<lparr>can_update_dataset := True, can_delete_data := True,
                      can_write_data := False\<rparr>) = OWNER"
    by (simp add: access_level_def)
qed

text \<open>
  C2 as stated fails: with write and create evidence and no read evidence the level is
  WRITER, not NONE.
\<close>

theorem none_iff_no_read_counterexample:
  "\<not> can_read_data write_without_read \<and> access_level write_without_read = WRITER"
  by (simp add: write_without_read_def access_level_def)

text \<open>
  C2, amended. The level is NONE if and only if \<open>can_read_data\<close> is false and neither
  the OWNER evidence (update and delete) nor the WRITER evidence (write and create)
  holds.
\<close>

theorem access_level_none_iff:
  "access_level p = NONE \<longleftrightarrow>
     \<not> can_read_data p \<and> \<not> (can_update_dataset p \<and> can_delete_data p)
       \<and> \<not> (can_write_data p \<and> can_create_table p)"
  by (simp add: access_level_def)

text \<open>
  C8. The level is determined by the probe outcomes, and by no more than the five the
  chain reads: two assignments that agree on \<open>can_update_dataset\<close>, \<open>can_delete_data\<close>,
  \<open>can_write_data\<close>, \<open>can_create_table\<close> and \<open>can_read_data\<close> get the same level,
  whatever \<open>dataset_exists\<close>, \<open>can_list_tables\<close> and \<open>can_get_dataset\<close> are in each. In
  particular two assignments that are equal on all eight outcomes get the same level.
\<close>

theorem access_level_deterministic:
  assumes "can_update_dataset p = can_update_dataset q"
    and "can_delete_data p = can_delete_data q"
    and "can_write_data p = can_write_data q"
    and "can_create_table p = can_create_table q"
    and "can_read_data p = can_read_data q"
  shows "access_level p = access_level q"
  using assms by (simp add: access_level_def)

theorem access_level_deterministic_witness:
  "access_level (initial_permissions\<lparr>can_create_table := True, can_write_data := True\<rparr>)
     = access_level write_without_read
   \<and> initial_permissions\<lparr>can_create_table := True, can_write_data := True\<rparr>
     \<noteq> write_without_read
   \<and> access_level write_without_read = WRITER"
proof -
  have "access_level (initial_permissions\<lparr>can_create_table := True, can_write_data := True\<rparr>)
      = access_level write_without_read"
    by (rule access_level_deterministic)
      (simp_all add: initial_permissions_def write_without_read_def)
  then show ?thesis
    by (simp add: initial_permissions_def write_without_read_def access_level_def)
qed

text \<open>
  C10. Setting any one of the eight probe outcomes to true never lowers the level in
  the ordering NONE < READER < WRITER < OWNER.
\<close>

theorem access_level_monotone:
  "level_rank (access_level p) \<le> level_rank (access_level (p\<lparr>dataset_exists := True\<rparr>))
   \<and> level_rank (access_level p) \<le> level_rank (access_level (p\<lparr>can_list_tables := True\<rparr>))
   \<and> level_rank (access_level p) \<le> level_rank (access_level (p\<lparr>can_get_dataset := True\<rparr>))
   \<and> level_rank (access_level p) \<le> level_rank (access_level (p\<lparr>can_create_table := True\<rparr>))
   \<and> level_rank (access_level p) \<le> level_rank (access_level (p\<lparr>can_read_data := True\<rparr>))
   \<and> level_rank (access_level p) \<le> level_rank (access_level (p\<lparr>can_write_data := True\<rparr>))
   \<and> level_rank (access_level p) \<le> level_rank (access_level (p\<lparr>can_delete_data := True\<rparr>))
   \<and> level_rank (access_level p) \<le> level_rank (access_level (p\<lparr>can_update_dataset := True\<rparr>))"
  by (simp add: access_level_def)

subsection \<open>Runs of \<^verbatim>\<open>check_dataset_permissions\<close>\<close>

text \<open>
  When the dataset is fetched, the five later probes all run, whatever each of them
  raises, and each outcome is true exactly when its call returned.
\<close>

lemma run_after_get_dataset:
  assumes "get_dataset c = None"
  shows "check_dataset_permissions c =
    ([GetDataset, ListTables, QueryRead, QueryCreate]
       @ (if query_create c = None then [DeleteTable] else [])
       @ [QueryDelete, UpdateDataset],
     Inr \<lparr>dataset_exists = True, can_list_tables = (list_tables c = None),
          can_get_dataset = True, can_create_table = (query_create c = None),
          can_read_data = (query_read c = None),
          can_write_data = (query_create c = None),
          can_delete_data = (query_delete c = None),
          can_update_dataset = (update_dataset c = None)\<rparr>)"
  using assms
  by (cases "list_tables c"; cases "query_read c"; cases "query_create c";
      cases "delete_table c"; cases "query_delete c"; cases "update_dataset c")
     (simp_all add: check_dataset_permissions_def probe_list_tables_def
        probe_read_data_def probe_write_data_def probe_delete_data_def
        probe_update_dataset_def initial_permissions_def)

text \<open>The two handled exceptions of the first probe end the run with the initial dictionary.\<close>

lemma run_get_dataset_handled:
  assumes "get_dataset c = Some e" and "e = NotFound \<or> e = Forbidden"
  shows "check_dataset_permissions c = ([GetDataset], Inr initial_permissions)"
  using assms by (auto simp add: check_dataset_permissions_def)

text \<open>Any other exception of the first probe leaves the function.\<close>

lemma run_get_dataset_unhandled:
  assumes "get_dataset c = Some e" and "e \<noteq> NotFound" and "e \<noteq> Forbidden"
  shows "check_dataset_permissions c = ([GetDataset], Inl e)"
  using assms by (cases e) (simp_all add: check_dataset_permissions_def)

text \<open>The scenarios of the specification, as runs.\<close>

lemma scenario_dataset_missing:
  "check_dataset_permissions missing_dataset_client = ([GetDataset], Inr initial_permissions)
   \<and> access_level initial_permissions = NONE
   \<and> main (Inr missing_dataset_client) = 1"
  by (simp add: missing_dataset_client_def check_dataset_permissions_def main_def
      generate_access_report_def access_level_def initial_permissions_def)

lemma scenario_read_only:
  "main (Inr reader_client) = 0"
  by (simp add: run_after_get_dataset reader_client_def main_def
      generate_access_report_def access_level_def)

lemma scenario_write_without_read:
  "snd (check_dataset_permissions writer_without_transcripts_client) = Inr write_without_read"
  by (simp add: run_after_get_dataset writer_without_transcripts_client_def
      write_without_read_def)

subsection \<open>Isolation of the probes\<close>

text \<open>
  C3 as stated fails at the first probe: when \<^verbatim>\<open>get_dataset\<close> raises \<^verbatim>\<open>NotFound\<close> the
  function returns at once. No later call is made, and the outcomes of the later probes
  stay false although each of their calls would have returned.
\<close>

theorem probe_isolation_counterexample:
  "list_tables missing_dataset_client = None
   \<and> fst (check_dataset_permissions missing_dataset_client) = [GetDataset]
   \<and> snd (check_dataset_permissions missing_dataset_client) = Inr initial_permissions
   \<and> \<not> can_list_tables initial_permissions"
  by (simp add: missing_dataset_client_def check_dataset_permissions_def
      initial_permissions_def)

text \<open>
  C3, amended. A failure of any probe after the dataset-metadata probe, whatever the
  exception, prevents no later probe: once the dataset is fetched, the calls of all six
  probes are made in order and each later outcome in the result is true exactly when
  its call returned. A failure of the dataset-metadata probe itself ends the run: no
  later call is made.
\<close>

theorem later_probes_isolated:
  "(get_dataset c = None \<longrightarrow>
      fst (check_dataset_permissions c) =
        [GetDataset, ListTables, QueryRead, QueryCreate]
          @ (if query_create c = None then [DeleteTable] else [])
          @ [QueryDelete, UpdateDataset]
      \<and> (\<exists>p. snd (check_dataset_permissions c) = Inr p
            \<and> can_list_tables p = (list_tables c = None)
            \<and> can_read_data p = (query_read c = None)
            \<and> can_create_table p = (query_create c = None)
            \<and> can_write_data p = (query_create c = None)
            \<and> can_delete_data p = (query_delete c = None)
            \<and> can_update_dataset p = (update_dataset c = None)))
   \<and> (get_dataset c \<noteq> None \<longrightarrow> fst (check_dataset_permissions c) = [GetDataset])"
proof (intro conjI impI)
  assume ok: "get_dataset c = None"
  show "fst (check_dataset_permissions c) =
        [GetDataset, ListTables, QueryRead, QueryCreate]
          @ (if query_create c = None then [DeleteTable] else [])
          @ [QueryDelete, UpdateDataset]"
    by (simp add: run_after_get_dataset [OF ok])
  show "\<exists>p. snd (check_dataset_permissions c) = Inr p
            \<and> can_list_tables p = (list_tables c = None)
            \<and> can_read_data p = (query_read c = None)
            \<and> can_create_table p = (query_create c = None)
            \<and> can_write_data p = (query_create c = None)
            \<and> can_delete_data p = (query_delete c = None)
            \<and> can_update_dataset p = (update_dataset c = None)"
    by (simp add: run_after_get_dataset [OF ok])
next
  assume "get_dataset c \<noteq> None"
  then obtain e where e: "get_dataset c = Some e"
    by blast
  show "fst (check_dataset_permissions c) = [GetDataset]"
  proof (cases "e = NotFound \<or> e = Forbidden")
    case True
    with e show ?thesis
      by (simp add: run_get_dataset_handled)
  next
    case False
    with e show ?thesis
      by (simp add: run_get_dataset_unhandled)
  qed
qed

theorem later_probes_isolated_witness:
  "fst (check_dataset_permissions failing_probes_client) =
     [GetDataset, ListTables, QueryRead, QueryCreate, QueryDelete, UpdateDataset]
   \<and> (\<exists>p. snd (check_dataset_permissions failing_probes_client) = Inr p
         \<and> \<not> can_list_tables p \<and> \<not> can_read_data p \<and> \<not> can_create_table p
         \<and> \<not> can_write_data p \<and> \<not> can_delete_data p \<and> \<not> can_update_dataset p)
   \<and> fst (check_dataset_permissions timeout_client) = [GetDataset]"
  using later_probes_isolated [of failing_probes_client]
    later_probes_isolated [of timeout_client]
  by (simp add: failing_probes_client_def timeout_client_def)

subsection \<open>Which errors leave \<^verbatim>\<open>check_dataset_permissions\<close>\<close>

text \<open>
  C4 as stated fails: a timeout raised while the dataset is fetched is not caught at the
  probe; it leaves \<^verbatim>\<open>check_dataset_permissions\<close>, and no dictionary is returned.
\<close>

theorem transient_error_counterexample:
  "get_dataset timeout_client = Some DeadlineExceeded
   \<and> snd (check_dataset_permissions timeout_client) = Inl DeadlineExceeded"
  by (simp add: timeout_client_def check_dataset_permissions_def)

text \<open>
  C4, amended. Every error raised by the probing call of a probe after the
  dataset-metadata probe (\<^verbatim>\<open>list_tables\<close>, the read query, the create-as-select query, the
  delete statement, \<^verbatim>\<open>update_dataset\<close>) is caught at that probe and becomes a false
  outcome of it, and the run continues to a returned dictionary. An error raised by the
  cleanup call \<^verbatim>\<open>delete_table\<close> inside the write probe is caught there as well, but turns
  no outcome false: \<open>can_create_table\<close> and \<open>can_write_data\<close> stay true, and the result
  of the run is the same whatever \<^verbatim>\<open>delete_table\<close> does. In the dataset-metadata probe
  only \<^verbatim>\<open>NotFound\<close> and \<^verbatim>\<open>Forbidden\<close> are caught, and they end the run with every outcome
  false. An error leaves \<^verbatim>\<open>check_dataset_permissions\<close> exactly when \<^verbatim>\<open>get_dataset\<close> raised
  it and it is neither \<^verbatim>\<open>NotFound\<close> nor \<^verbatim>\<open>Forbidden\<close>. (The client is constructed by the
  caller, not in this function.)
\<close>

theorem errors_caught_or_propagated:
  "(snd (check_dataset_permissions c) = Inl e
      \<longleftrightarrow> get_dataset c = Some e \<and> e \<noteq> NotFound \<and> e \<noteq> Forbidden)
   \<and> (get_dataset c = Some NotFound \<or> get_dataset c = Some Forbidden
      \<longrightarrow> snd (check_dataset_permissions c) = Inr initial_permissions)
   \<and> (get_dataset c = None \<longrightarrow>
        (\<exists>p. snd (check_dataset_permissions c) = Inr p
           \<and> (list_tables c \<noteq> None \<longrightarrow> \<not> can_list_tables p)
           \<and> (query_read c \<noteq> None \<longrightarrow> \<not> can_read_data p)
           \<and> (query_create c \<noteq> None \<longrightarrow> \<not> can_create_table p \<and> \<not> can_write_data p)
           \<and> (query_create c = None \<and> delete_table c \<noteq> None
                \<longrightarrow> can_create_table p \<and> can_write_data p)
           \<and> (query_delete c \<noteq> None \<longrightarrow> \<not> can_delete_data p)
           \<and> (update_dataset c \<noteq> None \<longrightarrow> \<not> can_update_dataset p)))
   \<and> snd (check_dataset_permissions (c\<lparr>delete_table := d\<rparr>))
       = snd (check_dataset_permissions c)"
proof (intro conjI impI)
  show "snd (check_dataset_permissions c) = Inl e
      \<longleftrightarrow> get_dataset c = Some e \<and> e \<noteq> NotFound \<and> e \<noteq> Forbidden"
  proof (cases "get_dataset c")
    case None
    then show ?thesis
      by (simp add: run_after_get_dataset)
  next
    case (Some e')
    show ?thesis
    proof (cases "e' = NotFound \<or> e' = Forbidden")
      case True
      with Some show ?thesis
        by (auto simp add: run_get_dataset_handled)
    next
      case False
      with Some show ?thesis
        by (auto simp add: run_get_dataset_unhandled)
    qed
  qed
next
  assume "get_dataset c = Some NotFound \<or> get_dataset c = Some Forbidden"
  then show "snd (check_dataset_permissions c) = Inr initial_permissions"
    by (auto simp add: run_get_dataset_handled)
next
  assume ok: "get_dataset c = None"
  show "\<exists>p. snd (check_dataset_permissions c) = Inr p
           \<and> (list_tables c \<noteq> None \<longrightarrow> \<not> can_list_tables p)
           \<and> (query_read c \<noteq> None \<longrightarrow> \<not> can_read_data p)
           \<and> (query_create c \<noteq> None \<longrightarrow> \<not> can_create_table p \<and> \<not> can_write_data p)
           \<and> (query_create c = None \<and> delete_table c \<noteq> None
                \<longrightarrow> can_create_table p \<and> can_write_data p)
           \<and> (query_delete c \<noteq> None \<longrightarrow> \<not> can_delete_data p)
           \<and> (update_dataset c \<noteq> None \<longrightarrow> \<not> can_update_dataset p)"
    by (simp add: run_after_get_dataset [OF ok])
next
  show "snd (check_dataset_permissions (c\<lparr>delete_table := d\<rparr>))
       = snd (check_dataset_permissions c)"
  proof (cases "get_dataset c")
    case None
    then show ?thesis
      by (simp add: run_after_get_dataset)
  next
    case (Some e')
    then show ?thesis
      by (simp add: check_dataset_permissions_def)
  qed
qed

theorem errors_caught_or_propagated_witness:
  "snd (check_dataset_permissions timeout_client) = Inl DeadlineExceeded
   \<and> snd (check_dataset_permissions missing_dataset_client) = Inr initial_permissions
   \<and> (\<exists>p. snd (check_dataset_permissions failing_probes_client) = Inr p
         \<and> \<not> can_list_tables p \<and> \<not> can_read_data p \<and> \<not> can_create_table p
         \<and> \<not> can_write_data p \<and> \<not> can_delete_data p \<and> \<not> can_update_dataset p)
   \<and> (\<exists>p. snd (check_dataset_permissions cleanup_fails_client) = Inr p
         \<and> can_create_table p \<and> can_write_data p)
   \<and> snd (check_dataset_permissions (cleanup_fails_client\<lparr>delete_table := None\<rparr>))
       = snd (check_dataset_permissions cleanup_fails_client)"
  using errors_caught_or_propagated [of timeout_client DeadlineExceeded]
    errors_caught_or_propagated [of missing_dataset_client OtherError]
    errors_caught_or_propagated [of failing_probes_client OtherError]
    errors_caught_or_propagated [of cleanup_fails_client OtherError None]
  by (simp add: timeout_client_def missing_dataset_client_def failing_probes_client_def
      cleanup_fails_client_def)

subsection \<open>The write probe and its cleanup\<close>

text \<open>
  C5 as stated fails: when the create-as-select query raises, the write probe runs and
  \<^verbatim>\<open>delete_table\<close> is not called.
\<close>

theorem cleanup_always_counterexample:
  "QueryCreate \<in> set (fst (check_dataset_permissions reader_client))
   \<and> DeleteTable \<notin> set (fst (check_dataset_permissions reader_client))"
  by (simp add: run_after_get_dataset reader_client_def)

text \<open>
  C5, amended. The write probe runs exactly when the dataset was fetched, and its
  cleanup call \<^verbatim>\<open>delete_table\<close> is made exactly when, in addition, the create-as-select
  query returned; after a failed creation no cleanup is attempted.
\<close>

theorem cleanup_attempted_iff_created:
  "(QueryCreate \<in> set (fst (check_dataset_permissions c)) \<longleftrightarrow> get_dataset c = None)
   \<and> (DeleteTable \<in> set (fst (check_dataset_permissions c))
        \<longleftrightarrow> get_dataset c = None \<and> query_create c = None)"
proof (cases "get_dataset c")
  case None
  then show ?thesis
    by (simp add: run_after_get_dataset)
next
  case (Some e)
  show ?thesis
  proof (cases "e = NotFound \<or> e = Forbidden")
    case True
    with Some show ?thesis
      by (simp add: run_get_dataset_handled)
  next
    case False
    with Some show ?thesis
      by (simp add: run_get_dataset_unhandled)
  qed
qed

text \<open>
  C6. When the dataset is fetched, the create-as-select query returns and the cleanup
  \<^verbatim>\<open>delete_table\<close> raises, the result is a dictionary in which \<open>can_create_table\<close> and
  \<open>can_write_data\<close> are true, and the failed cleanup call was made.
\<close>

theorem cleanup_failure_swallowed:
  assumes "get_dataset c = None" and "query_create c = None" and "delete_table c = Some e"
  shows "DeleteTable \<in> set (fst (check_dataset_permissions c))
    \<and> (\<exists>p. snd (check_dataset_permissions c) = Inr p
          \<and> can_create_table p \<and> can_write_data p)"
  using assms by (simp add: run_after_get_dataset)

theorem cleanup_failure_swallowed_witness:
  "DeleteTable \<in> set (fst (check_dataset_permissions cleanup_fails_client))
   \<and> (\<exists>p. snd (check_dataset_permissions cleanup_fails_client) = Inr p
         \<and> can_create_table p \<and> can_write_data p)"
  using cleanup_failure_swallowed [of cleanup_fails_client DeadlineExceeded]
  by (simp add: cleanup_fails_client_def)

text \<open>
  C9. In every dictionary that \<^verbatim>\<open>check_dataset_permissions\<close> returns, on the full path
  and on both early returns, \<open>can_create_table\<close> equals \<open>can_write_data\<close> and
  \<open>dataset_exists\<close> equals \<open>can_get_dataset\<close>.
\<close>

theorem permissions_paired:
  assumes "snd (check_dataset_permissions c) = Inr p"
  shows "can_create_table p = can_write_data p \<and> dataset_exists p = can_get_dataset p"
proof (cases "get_dataset c")
  case None
  with assms show ?thesis
    by (auto simp add: run_after_get_dataset)
next
  case (Some e)
  show ?thesis
  proof (cases "e = NotFound \<or> e = Forbidden")
    case True
    with Some assms show ?thesis
      by (auto simp add: run_get_dataset_handled initial_permissions_def)
  next
    case False
    with Some assms show ?thesis
      by (simp add: run_get_dataset_unhandled)
  qed
qed

theorem permissions_paired_witness:
  "snd (check_dataset_permissions writer_without_transcripts_client) = Inr write_without_read
   \<and> can_create_table write_without_read = can_write_data write_without_read
   \<and> dataset_exists write_without_read = can_get_dataset write_without_read"
proof -
  have run: "snd (check_dataset_permissions writer_without_transcripts_client)
      = Inr write_without_read"
    by (simp add: run_after_get_dataset writer_without_transcripts_client_def
        write_without_read_def)
  from permissions_paired [OF run] run show ?thesis
    by simp
qed

subsection \<open>The exit status\<close>

text \<open>
  C7. \<^verbatim>\<open>main\<close> returns 0 exactly when the client was constructed, the permissions check
  returned a dictionary and the level derived from it is not NONE. It returns 1
  otherwise: when the derived level is NONE, when the construction of the client
  raised, and when an error left the permissions check.
\<close>

theorem main_exit_status:
  "(main new_client = 0 \<longleftrightarrow>
      (\<exists>c p. new_client = Inr c \<and> snd (check_dataset_permissions c) = Inr p
         \<and> access_level p \<noteq> NONE))
   \<and> (main new_client = 1 \<longleftrightarrow>
      (\<exists>c p. new_client = Inr c \<and> snd (check_dataset_permissions c) = Inr p
         \<and> access_level p = NONE)
      \<or> (\<exists>e. new_client = Inl e)
      \<or> (\<exists>c e. new_client = Inr c \<and> snd (check_dataset_permissions c) = Inl e))
   \<and> (main new_client = 0 \<or> main new_client = 1)"
  by (auto simp add: main_def generate_access_report_def split: sum.splits)

end
